theory Spec2Isabelle
  imports Main
begin

unbundle bit_operations_syntax

section \<open>Permission bits (src/shell.py, class Permissions and Python's stat module)\<close>

text \<open>
  Python's \<open>st_mode\<close> is an unbounded integer, so the mode is an \<open>int\<close> and \<open>&\<close> is
  the bitwise conjunction of integers. The constants are those of Python's \<open>stat\<close>
  module: \<open>S_IRUSR = 0o400\<close>, \<open>S_IWUSR = 0o200\<close>, \<open>S_IXUSR = 0o100\<close>, and so on down to
  \<open>S_IXOTH = 0o001\<close>; \<open>S_ISDIR(mode)\<close> is \<open>(mode & 0o170000) == 0o040000\<close>.
\<close>

definition S_IRUSR :: int where "S_IRUSR = 256"
definition S_IWUSR :: int where "S_IWUSR = 128"
definition S_IXUSR :: int where "S_IXUSR = 64"
definition S_IRGRP :: int where "S_IRGRP = 32"
definition S_IWGRP :: int where "S_IWGRP = 16"
definition S_IXGRP :: int where "S_IXGRP = 8"
definition S_IROTH :: int where "S_IROTH = 4"
definition S_IWOTH :: int where "S_IWOTH = 2"
definition S_IXOTH :: int where "S_IXOTH = 1"

definition S_ISDIR :: "int \<Rightarrow> bool" where
  "S_ISDIR st_mode = (st_mode AND 61440 = 16384)"

definition OWNER :: "int list" where "OWNER = [S_IRUSR, S_IWUSR, S_IXUSR]"
definition GROUP :: "int list" where "GROUP = [S_IRGRP, S_IWGRP, S_IXGRP]"
definition OTHERS :: "int list" where "OTHERS = [S_IROTH, S_IWOTH, S_IXOTH]"

definition PERMISSIONS_SYMBOLS :: "string list" where
  "PERMISSIONS_SYMBOLS = [''r'', ''w'', ''x'']"

definition EMPTY_PERMISSION_SYMBOL :: string where
  "EMPTY_PERMISSION_SYMBOL = ''-''"

text \<open>
  The three formatters of the source share one loop,
  \<open>for index, value in enumerate(masks)\<close>, that appends the symbol of the index when
  the masked mode is non-zero and the empty symbol otherwise. \<open>format_loop\<close> is that
  loop, with the running index as an argument.
\<close>

fun format_loop :: "nat \<Rightarrow> int list \<Rightarrow> string \<Rightarrow> int \<Rightarrow> string" where
  "format_loop index [] permissions st_mode = permissions"
| "format_loop index (v # vs) permissions st_mode =
     format_loop (Suc index) vs
       (if st_mode AND v \<noteq> 0
        then permissions @ PERMISSIONS_SYMBOLS ! index
        else permissions @ EMPTY_PERMISSION_SYMBOL)
       st_mode"

definition format_owner_permissions :: "string \<Rightarrow> int \<Rightarrow> string" where
  "format_owner_permissions permissions st_mode = format_loop 0 OWNER permissions st_mode"

definition format_group_permissions :: "string \<Rightarrow> int \<Rightarrow> string" where
  "format_group_permissions permissions st_mode = format_loop 0 GROUP permissions st_mode"

definition format_others_permissions :: "string \<Rightarrow> int \<Rightarrow> string" where
  "format_others_permissions permissions st_mode = format_loop 0 OTHERS permissions st_mode"

definition format_path_permissions_levels :: "int \<Rightarrow> string" where
  "format_path_permissions_levels st_mode =
     format_others_permissions
       (format_group_permissions
         (format_owner_permissions (if S_ISDIR st_mode then ''d'' else ''-'') st_mode)
         st_mode)
       st_mode"

definition perm_sym :: "bool \<Rightarrow> char \<Rightarrow> char" where
  \<comment> \<open>The spec's rendering rule for one position: the letter when the bit is set, a dash otherwise.\<close>
  "perm_sym b c = (if b then c else CHR ''-'')"

section \<open>Python strings\<close>

text \<open>
  A Python \<open>str\<close> is modelled as a \<open>string\<close> whose characters are the code points
  below 256. \<open>isspace\<close> lists the code points below 256 that Python's \<open>str.isspace\<close>
  accepts, and so the ones at which \<open>str.split()\<close> splits and which \<open>str.strip()\<close>
  removes: the ASCII ones, NEXT LINE (0x85) and NO-BREAK SPACE (0xA0).
\<close>

definition nl :: char where "nl = CHR 0x0A"
definition cr :: char where "cr = CHR 0x0D"

definition isspace :: "char \<Rightarrow> bool" where
  "isspace c = (c \<in> set [CHR 0x09, CHR 0x0A, CHR 0x0B, CHR 0x0C, CHR 0x0D,
                          CHR 0x1C, CHR 0x1D, CHR 0x1E, CHR 0x1F, CHR 0x20,
                          CHR 0x85, CHR 0xA0])"

text \<open>\<open>s.split()\<close>: the maximal runs of non-whitespace characters, in order.\<close>

fun split_loop :: "string \<Rightarrow> string \<Rightarrow> string list" where
  "split_loop cur [] = (if cur = [] then [] else [cur])"
| "split_loop cur (c # cs) =
     (if isspace c then (if cur = [] then split_loop [] cs else cur # split_loop [] cs)
      else split_loop (cur @ [c]) cs)"

definition split_ws :: "string \<Rightarrow> string list" where
  "split_ws s = split_loop [] s"

text \<open>\<open>s.split(sep)\<close> for a one-character separator: never empty, empty fields kept.\<close>

fun split_on_loop :: "char \<Rightarrow> string \<Rightarrow> string \<Rightarrow> string list" where
  "split_on_loop sep cur [] = [cur]"
| "split_on_loop sep cur (c # cs) =
     (if c = sep then cur # split_on_loop sep [] cs else split_on_loop sep (cur @ [c]) cs)"

definition split_on :: "char \<Rightarrow> string \<Rightarrow> string list" where
  "split_on sep s = split_on_loop sep [] s"

definition strip :: "string \<Rightarrow> string" where
  "strip s = rev (dropWhile isspace (rev (dropWhile isspace s)))"

text \<open>
  \<open>str.upper\<close> is exact here on ASCII. On a code point from 128 on, Python yields a
  character that is no ASCII letter, or the pair \<open>SS\<close> (for the sharp s); the model leaves
  such a character as it is. Either way the upper-cased string is no member name of
  \<open>Command\<close>, so the membership test of the parser is decided alike.
\<close>

definition upper_char :: "char \<Rightarrow> char" where
  "upper_char c =
     (case map_of (zip ''abcdefghijklmnopqrstuvwxyz'' ''ABCDEFGHIJKLMNOPQRSTUVWXYZ'') c of
        Some u \<Rightarrow> u | None \<Rightarrow> c)"

definition lower_char :: "char \<Rightarrow> char" where
  "lower_char c =
     (case map_of (zip ''ABCDEFGHIJKLMNOPQRSTUVWXYZ'' ''abcdefghijklmnopqrstuvwxyz'') c of
        Some l \<Rightarrow> l | None \<Rightarrow> c)"

definition upper :: "string \<Rightarrow> string" where "upper s = map upper_char s"
definition lower :: "string \<Rightarrow> string" where "lower s = map lower_char s"

definition startswith :: "string \<Rightarrow> char \<Rightarrow> bool" where
  \<comment> \<open>\<open>s.startswith(c)\<close> for a one-character prefix\<close>
  "startswith s c = (case s of [] \<Rightarrow> False | x # _ \<Rightarrow> x = c)"

fun join :: "string \<Rightarrow> string list \<Rightarrow> string" where
  "join sep [] = []"
| "join sep [x] = x"
| "join sep (x # y # ys) = x @ sep @ join sep (y # ys)"

text \<open>\<open>str(n)\<close> for a non-negative integer: its decimal digits.\<close>

fun str_nat :: "nat \<Rightarrow> string" where
  "str_nat n =
     (if n < 10 then [''0123456789'' ! n]
      else str_nat (n div 10) @ [''0123456789'' ! (n mod 10)])"

declare str_nat.simps [simp del]

section \<open>Exceptions, the operating system and the state of the session\<close>

datatype exn =
    FileNotFoundError | NotADirectoryError | PermissionError | KeyError | IndexError
  | OSError | ValueError string | SystemExit int | EOFError | NotACommand

datatype event = Print string | ClearScreen

text \<open>
  What the shell reads from the file system is a parameter of the model. A directory
  entry carries its name and the results of \<open>stat()\<close>, \<open>owner()\<close> and \<open>group()\<close>, each of
  which may raise. Times are kept abstract (type \<open>'t\<close>): the source only hands
  \<open>st_ctime\<close> to \<open>datetime.fromtimestamp\<close> and prints the result.
\<close>

record 't stat_result =
  st_mode :: int
  st_nlink :: nat
  st_size :: nat
  st_ctime :: 't
  st_mtime :: 't

record 't path_item =
  name :: string
  stat :: "exn + 't stat_result"
  owner :: "exn + string"
  group :: "exn + string"

text \<open>
  \<open>chdir cwd path\<close> is \<open>os.chdir(os.path.abspath(path))\<close> run in \<open>cwd\<close>: the exception it
  raises or the new working directory. \<open>path_exists cwd path\<close> is \<open>Path(path).exists()\<close>:
  its answer, or the \<open>OSError\<close> it lets through (it answers \<open>False\<close> only for a missing
  path or path component; a name that is too long, for one, raises);
  \<open>iterdir cwd path\<close> the entries of \<open>Path(path).iterdir()\<close> in iteration order.
  \<open>set_iter xs\<close> is the order in which Python iterates over \<open>set(xs)\<close>, and
  \<open>fromtimestamp t\<close> is \<open>str(datetime.fromtimestamp(t))\<close>.
\<close>

record 't os_env =
  home :: string
  chdir :: "string \<Rightarrow> string \<Rightarrow> exn + string"
  path_exists :: "string \<Rightarrow> string \<Rightarrow> exn + bool"
  iterdir :: "string \<Rightarrow> string \<Rightarrow> exn + 't path_item list"
  set_iter :: "string list \<Rightarrow> string list"
  fromtimestamp :: "'t \<Rightarrow> string"

text \<open>
  The state of a session: the working directory, what has been written to the terminal,
  and the history files. \<open>HISTORY_FILE_PATH\<close> is the relative path \<open>./.history_shell\<close>,
  so there is one history file per directory: \<open>history_files w d\<close> is the content of
  the one in directory \<open>d\<close>, \<open>None\<close> when there is none.
\<close>

record world =
  cwd :: string
  out :: "event list"
  history_files :: "string \<Rightarrow> string option"

definition print :: "string \<Rightarrow> world \<Rightarrow> world" where
  "print s w = w\<lparr>out := out w @ [Print s]\<rparr>"

section \<open>class History\<close>

definition init :: "world \<Rightarrow> world" where
  \<comment> \<open>\<open>open(path, "a").close()\<close>: the file is created empty when it is absent\<close>
  "init w = w\<lparr>history_files := (history_files w)
     (cwd w \<mapsto> (case history_files w (cwd w) of None \<Rightarrow> [] | Some h \<Rightarrow> h))\<rparr>"

definition write_history :: "string \<Rightarrow> string \<Rightarrow> world \<Rightarrow> world" where
  \<comment> \<open>\<open>now\<close> is \<open>str(datetime.now().timestamp())\<close>; opening for append creates the file\<close>
  "write_history now source_command w = w\<lparr>history_files := (history_files w)
     (cwd w \<mapsto> (case history_files w (cwd w) of None \<Rightarrow> [] | Some h \<Rightarrow> h)
                 @ now @ '':'' @ source_command @ [nl])\<rparr>"

text \<open>
  The backward scan of \<open>is_not_equal_last_history_record\<close>. At position \<open>p\<close>, \<open>read(1)\<close>
  yields the byte at \<open>p\<close> and moves to \<open>p + 1\<close> (or yields nothing at the end of the
  file); a newline ends the loop, anything else is followed by \<open>seek(-2, SEEK_CUR)\<close>.
  A seek before the start of the file raises \<open>OSError\<close>, which the source answers with
  \<open>seek(0)\<close>. The result is the position from which \<open>readline\<close> then reads. The file
  is written as text and read back as bytes that are decoded; both use the same
  encoding, in which no character other than the newline holds the newline byte, so
  the scan over the characters finds the line the scan over the bytes finds.
\<close>

fun scan_back :: "string \<Rightarrow> nat \<Rightarrow> nat" where
  "scan_back h p =
     (if p < length h
      then (if h ! p = nl then Suc p
            else (case p of 0 \<Rightarrow> 0 | Suc q \<Rightarrow> scan_back h q))
      else (case p of 0 \<Rightarrow> 0 | Suc 0 \<Rightarrow> 0 | Suc (Suc q) \<Rightarrow> scan_back h q))"

declare scan_back.simps [simp del]

definition seek_last_line :: "string \<Rightarrow> nat" where
  "seek_last_line h = (if length h < 2 then 0 else scan_back h (length h - 2))"

definition readline :: "string \<Rightarrow> nat \<Rightarrow> string" where
  "readline h pos =
     (let r = drop pos h; l = takeWhile (\<lambda>c. c \<noteq> nl) r
      in if length l < length r then l @ [nl] else l)"

definition is_not_equal_last_history_record :: "world \<Rightarrow> string \<Rightarrow> exn + bool" where
  "is_not_equal_last_history_record w source_command =
     (case history_files w (cwd w) of
        None \<Rightarrow> Inl FileNotFoundError
      | Some h \<Rightarrow>
          if length h = 0 \<or> source_command = [] then Inr True
          else (case split_on CHR '':'' (readline h (seek_last_line h)) of
                  _ # field # _ \<Rightarrow> Inr (strip field \<noteq> source_command)
                | _ \<Rightarrow> Inl IndexError))"

text \<open>
  \<open>readlines\<close> of a file opened in text mode: a line ends at a newline, at a carriage
  return, or at a carriage return followed by a newline, and each of these endings is
  read as one newline.
\<close>

fun readlines_loop :: "string \<Rightarrow> string \<Rightarrow> string list" where
  "readlines_loop cur [] = (if cur = [] then [] else [cur])"
| "readlines_loop cur [c] = (if c = nl \<or> c = cr then [cur @ [nl]] else [cur @ [c]])"
| "readlines_loop cur (c # d # cs) =
     (if c = cr \<and> d = nl then (cur @ [nl]) # readlines_loop [] cs
      else if c = nl \<or> c = cr then (cur @ [nl]) # readlines_loop [] (d # cs)
      else readlines_loop (cur @ [c]) (d # cs))"

fun show_loop :: "nat \<Rightarrow> string list \<Rightarrow> world \<Rightarrow> exn option \<times> world" where
  "show_loop index [] w = (None, w)"
| "show_loop index (v # vs) w =
     (case split_on CHR '':'' v of
        _ # field # _ \<Rightarrow> show_loop (Suc index) vs (print (str_nat index @ ''  '' @ strip field) w)
      | _ \<Rightarrow> (Some IndexError, w))"

definition show_history :: "world \<Rightarrow> exn option \<times> world" where
  \<comment> \<open>\<open>History.show\<close>\<close>
  "show_history w =
     (case history_files w (cwd w) of
        None \<Rightarrow> (Some FileNotFoundError, w)
      | Some h \<Rightarrow> show_loop 0 (readlines_loop [] h) w)"

text \<open>
  The history files the shell itself produces: a sequence of records
  \<open>timestamp:command\<close>, one per line. The timestamp is the text of a float, so it holds
  neither a colon nor a newline; the command is a line read by \<open>input\<close>, so it holds no
  newline.
\<close>

inductive shell_history :: "string \<Rightarrow> bool" where
  no_record: "shell_history []"
| add_record: "shell_history h \<Longrightarrow> nl \<notin> set now \<Longrightarrow> CHR '':'' \<notin> set now \<Longrightarrow>
     nl \<notin> set source_command \<Longrightarrow> shell_history (h @ now @ '':'' @ source_command @ [nl])"

section \<open>class Parser\<close>

definition Command_member_names :: "string list" where
  "Command_member_names = [''ECHO'', ''CD'', ''PWD'', ''LS'', ''EXIT'', ''CLEAR'', ''HISTORY'']"

definition tokenize :: "string \<Rightarrow> string list" where
  "tokenize source_command = split_ws source_command"

definition validate_main_command :: "string \<Rightarrow> exn + unit" where
  "validate_main_command main_command =
     (if upper main_command \<notin> set Command_member_names
      then Inl (ValueError ''Commands not found.'') else Inr ())"

definition parse_main_command :: "string list \<Rightarrow> world \<Rightarrow> string option \<times> world" where
  \<comment> \<open>the only exception of \<open>validate_main_command\<close> is the \<open>ValueError\<close> caught here\<close>
  "parse_main_command tokens w =
     (case tokens of
        [] \<Rightarrow> (None, w)
      | main_command # _ \<Rightarrow>
          (case validate_main_command main_command of
             Inr _ \<Rightarrow> (Some main_command, w)
           | Inl _ \<Rightarrow> (None, print (''Command not found: '' @ main_command) w)))"

record parser =
  tokens :: "string list"
  main_command :: "string option"
  arguments :: "string list"

definition Parser :: "string \<Rightarrow> world \<Rightarrow> parser \<times> world" where
  "Parser source_command w =
     (let ts = tokenize source_command; (mc, w') = parse_main_command ts w
      in (\<lparr>tokens = ts, main_command = mc, arguments = drop 1 ts\<rparr>, w'))"

section \<open>class CommandManager\<close>

text \<open>
  \<open>hasattr(self, name)\<close> holds for the two instance attributes, for every method of the
  class and for the attributes every object inherits. Only the seven command methods
  are called through \<open>getattr\<close>; \<open>getattr_method\<close> names them.
\<close>

definition class_attributes :: "string list" where
  "class_attributes =
     [''_main_command'', ''_arguments'', ''run'', ''_execute_command'',
      ''_able_to_receive_arguments'', ''echo'', ''exit'', ''clear'', ''pwd'', ''history'',
      ''cd'', ''ls'', ''_parse_ls_arguments'', ''_format_ls_long_listing'',
      ''_format_path_permissions_levels'', ''_format_owner_permissions'',
      ''_format_group_permissions'', ''_format_others_permissions'',
      ''_get_no_hidden_items_from_path'', ''_validate_ls_path_argument'']"

definition object_attributes :: "string list" where
  "object_attributes =
     [''__class__'', ''__delattr__'', ''__dict__'', ''__dir__'', ''__doc__'', ''__eq__'',
      ''__format__'', ''__ge__'', ''__getattribute__'', ''__getstate__'', ''__gt__'',
      ''__hash__'', ''__init__'', ''__init_subclass__'', ''__le__'', ''__lt__'',
      ''__module__'', ''__ne__'', ''__new__'', ''__reduce__'', ''__reduce_ex__'',
      ''__repr__'', ''__setattr__'', ''__sizeof__'', ''__str__'', ''__subclasshook__'',
      ''__weakref__'']"

definition hasattr :: "string \<Rightarrow> bool" where
  "hasattr a = (a \<in> set (class_attributes @ object_attributes))"

datatype handler = M_echo | M_exit | M_clear | M_pwd | M_history | M_cd | M_ls

definition getattr_method :: "string \<Rightarrow> handler option" where
  "getattr_method a =
     map_of [(''echo'', M_echo), (''exit'', M_exit), (''clear'', M_clear), (''pwd'', M_pwd),
             (''history'', M_history), (''cd'', M_cd), (''ls'', M_ls)] a"

definition able_to_receive_arguments :: "handler \<Rightarrow> bool" where
  \<comment> \<open>\<open>getfullargspec(method).args\<close> is \<open>['self', ...]\<close> for \<open>echo\<close>, \<open>cd\<close>, \<open>ls\<close> and \<open>[]\<close>
      for the static methods\<close>
  "able_to_receive_arguments m = (m = M_echo \<or> m = M_cd \<or> m = M_ls)"

definition echo :: "parser \<Rightarrow> string list \<Rightarrow> world \<Rightarrow> exn option \<times> world" where
  "echo p args_in w =
     (let args = (if args_in \<noteq> [] then args_in else arguments p)
      in (None, print (join '' '' args) w))"

definition exit_shell :: "world \<Rightarrow> exn option \<times> world" where
  "exit_shell w = (Some (SystemExit 0), w)"

definition clear :: "world \<Rightarrow> exn option \<times> world" where
  "clear w = (None, w\<lparr>out := out w @ [ClearScreen]\<rparr>)"

definition pwd :: "world \<Rightarrow> exn option \<times> world" where
  "pwd w = (None, print (cwd w) w)"

definition cd :: "'t os_env \<Rightarrow> string list \<Rightarrow> world \<Rightarrow> exn option \<times> world" where
  "cd env argument_path w =
     (let path = (if argument_path \<noteq> [] then concat argument_path else home env)
      in case chdir env (cwd w) path of
           Inr d \<Rightarrow> pwd (w\<lparr>cwd := d\<rparr>)
         | Inl FileNotFoundError \<Rightarrow> (None, print (''cd: no such file or directory: '' @ path) w)
         | Inl e \<Rightarrow> (Some e, w))"

definition validate_ls_path_argument :: "'t os_env \<Rightarrow> string \<Rightarrow> string \<Rightarrow> exn + string" where
  "validate_ls_path_argument env dir path_argument =
     (case path_exists env dir path_argument of
        Inl e \<Rightarrow> Inl e
      | Inr True \<Rightarrow> Inr path_argument
      | Inr False \<Rightarrow>
          Inl (ValueError (''ls: cannot access '' @ [CHR 0x27] @ path_argument @ [CHR 0x27]
                             @ '': No such file or directory'')))"

text \<open>
  \<open>ls_args\<close> is a list of one-character strings in the source (\<open>list(argument)[1:]\<close>);
  here it is the list of those characters.
\<close>

fun parse_ls_loop ::
  "'t os_env \<Rightarrow> string \<Rightarrow> string list \<Rightarrow> string \<Rightarrow> string \<Rightarrow> exn + (string \<times> string)" where
  "parse_ls_loop env dir [] ls_args path = Inr (ls_args, path)"
| "parse_ls_loop env dir (argument # rest) ls_args path =
     (if startswith argument CHR ''-'' then parse_ls_loop env dir rest (drop 1 argument) path
      else (case validate_ls_path_argument env dir argument of
              Inl e \<Rightarrow> Inl e
            | Inr p \<Rightarrow> parse_ls_loop env dir rest ls_args p))"

definition parse_ls_arguments :: "'t os_env \<Rightarrow> string \<Rightarrow> string list \<Rightarrow> exn + (string \<times> string)" where
  \<comment> \<open>\<open>arguments\<close> is the set of the parameters in its iteration order; \<open>dir\<close> is \<open>Path.cwd()\<close>\<close>
  "parse_ls_arguments env dir args_in = parse_ls_loop env dir args_in [] dir"

definition format_ls_long_listing :: "'t os_env \<Rightarrow> 't path_item \<Rightarrow> exn + string" where
  "format_ls_long_listing env item =
     (case stat item of
        Inl e \<Rightarrow> Inl e
      | Inr stats \<Rightarrow>
          (case owner item of
             Inl e \<Rightarrow> Inl e
           | Inr ow \<Rightarrow>
               (case group item of
                  Inl e \<Rightarrow> Inl e
                | Inr gr \<Rightarrow>
                    Inr (format_path_permissions_levels (st_mode stats) @ '' ''
                         @ str_nat (st_nlink stats) @ '' '' @ ow @ '' '' @ gr @ ''  ''
                         @ str_nat (st_size stats) @ '' ''
                         @ fromtimestamp env (st_ctime stats) @ '' '' @ name item))))"

definition get_no_hidden_items_from_path ::
  "'t os_env \<Rightarrow> string \<Rightarrow> string \<Rightarrow> exn + 't path_item list" where
  "get_no_hidden_items_from_path env dir path =
     (case iterdir env dir path of
        Inl e \<Rightarrow> Inl e
      | Inr items \<Rightarrow> Inr (filter (\<lambda>item. \<not> startswith (name item) CHR ''.'') items))"

fun ls_print_loop :: "'t os_env \<Rightarrow> string \<Rightarrow> 't path_item list \<Rightarrow> world \<Rightarrow> exn option \<times> world" where
  "ls_print_loop env ls_args [] w = (None, w)"
| "ls_print_loop env ls_args (item # rest) w =
     (if CHR ''l'' \<in> set ls_args
      then (case format_ls_long_listing env item of
              Inl e \<Rightarrow> (Some e, w)
            | Inr line \<Rightarrow> ls_print_loop env ls_args rest (print line w))
      else ls_print_loop env ls_args rest (print (name item) w))"

definition ls_try :: "'t os_env \<Rightarrow> string list \<Rightarrow> world \<Rightarrow> exn option \<times> world" where
  \<comment> \<open>the body of the \<open>try\<close> statement of \<open>ls\<close>\<close>
  "ls_try env parameters w =
     (case parse_ls_arguments env (cwd w) (set_iter env parameters) of
        Inl e \<Rightarrow> (Some e, w)
      | Inr (ls_args, path) \<Rightarrow>
          if ls_args = [] \<or> CHR ''a'' \<notin> set ls_args
          then (case get_no_hidden_items_from_path env (cwd w) path of
                  Inl e \<Rightarrow> (Some e, w)
                | Inr no_hidden_items \<Rightarrow> ls_print_loop env ls_args no_hidden_items w)
          else (case iterdir env (cwd w) path of
                  Inl e \<Rightarrow> (Some e, w)
                | Inr items \<Rightarrow> ls_print_loop env ls_args items w))"

definition except_ValueError :: "exn option \<times> world \<Rightarrow> exn option \<times> world" where
  \<comment> \<open>\<open>except ValueError as e: print(e)\<close>\<close>
  "except_ValueError r =
     (case r of (Some (ValueError msg), w) \<Rightarrow> (None, print msg w) | _ \<Rightarrow> r)"

definition ls :: "'t os_env \<Rightarrow> string list \<Rightarrow> world \<Rightarrow> exn option \<times> world" where
  "ls env parameters w = except_ValueError (ls_try env parameters w)"

definition call_method ::
  "'t os_env \<Rightarrow> parser \<Rightarrow> handler \<Rightarrow> string list \<Rightarrow> world \<Rightarrow> exn option \<times> world" where
  \<comment> \<open>calling a method; \<open>args = []\<close> is also the default of every list parameter\<close>
  "call_method env p m args w =
     (case m of
        M_echo \<Rightarrow> echo p args w
      | M_exit \<Rightarrow> exit_shell w
      | M_clear \<Rightarrow> clear w
      | M_pwd \<Rightarrow> pwd w
      | M_history \<Rightarrow> show_history w
      | M_cd \<Rightarrow> cd env args w
      | M_ls \<Rightarrow> ls env args w)"

definition execute_command :: "'t os_env \<Rightarrow> parser \<Rightarrow> world \<Rightarrow> exn option \<times> world" where
  \<comment> \<open>\<open>NotACommand\<close> stands for calling an attribute that is no command method; no
      validated command name reaches it\<close>
  "execute_command env p w =
     (case main_command p of
        None \<Rightarrow> (Some NotACommand, w)
      | Some c \<Rightarrow>
          (case getattr_method c of
             None \<Rightarrow> (Some NotACommand, w)
           | Some m \<Rightarrow>
               if arguments p \<noteq> [] \<and> able_to_receive_arguments m
               then call_method env p m (arguments p) w
               else call_method env p m [] w))"

definition run :: "'t os_env \<Rightarrow> parser \<Rightarrow> world \<Rightarrow> exn option \<times> world" where
  "run env p w =
     (case main_command p of
        None \<Rightarrow> (None, w)
      | Some c \<Rightarrow> if c \<noteq> [] \<and> hasattr c then execute_command env p w else (None, w))"

section \<open>main\<close>

text \<open>
  One turn of the loop of \<open>main\<close>, for the line \<open>source_command\<close> read by \<open>input\<close>;
  \<open>now\<close> is the timestamp a history record written in this turn gets. The first
  component is the exception that leaves the loop, if any.
\<close>

definition turn :: "'t os_env \<Rightarrow> string \<Rightarrow> string \<Rightarrow> world \<Rightarrow> exn option \<times> world" where
  "turn env now source_command w =
     (let (p, w1) = Parser source_command w
      in case run env p w1 of
           (Some e, w2) \<Rightarrow> (Some e, w2)
         | (None, w2) \<Rightarrow>
             (case is_not_equal_last_history_record w2 source_command of
                Inl e \<Rightarrow> (Some e, w2)
              | Inr b \<Rightarrow> (None, if b then write_history now source_command w2 else w2)))"

text \<open>
  The loop over the lines the terminal supplies, each paired with its timestamp. It
  ends with the first exception; when the input is exhausted, \<open>input\<close> raises
  \<open>EOFError\<close>.
\<close>

fun main_loop :: "'t os_env \<Rightarrow> (string \<times> string) list \<Rightarrow> world \<Rightarrow> exn \<times> world" where
  "main_loop env [] w = (EOFError, w)"
| "main_loop env ((source_command, now) # rest) w =
     (case turn env now source_command w of
        (Some e, w') \<Rightarrow> (e, w')
      | (None, w') \<Rightarrow> main_loop env rest w')"

definition main :: "'t os_env \<Rightarrow> (string \<times> string) list \<Rightarrow> world \<Rightarrow> exn \<times> world" where
  "main env inputs w = main_loop env inputs (init w)"

section \<open>A small file system for the examples\<close>

text \<open>
  A root directory holding the regular files \<open>.hidden\<close>, \<open>visible\<close> and \<open>f\<close> (mode
  \<open>rw-r--r--\<close>, one link, owner \<open>u\<close>, group \<open>g\<close>, 4 bytes), and an empty home directory;
  \<open>demo_paths\<close> are the paths that exist. Changing into the regular file \<open>f\<close>, or into a
  path that runs through it, raises \<open>NotADirectoryError\<close>, as \<open>os.chdir\<close> does; a name
  of more than 255 characters makes \<open>Path.exists\<close> raise \<open>OSError\<close> (file name too long).
\<close>

definition demo_stats :: "nat stat_result" where
  "demo_stats = \<lparr>st_mode = 33188, st_nlink = 1, st_size = 4, st_ctime = 200, st_mtime = 100\<rparr>"

definition demo_file :: "string \<Rightarrow> nat path_item" where
  "demo_file nm = \<lparr>name = nm, stat = Inr demo_stats, owner = Inr ''u'', group = Inr ''g''\<rparr>"

definition demo_chdir :: "string \<Rightarrow> string \<Rightarrow> exn + string" where
  "demo_chdir dir path =
     (if path = ''/'' \<or> path = ''/home/u'' then Inr path
      else if path = ''f'' \<or> path = ''f/x'' then Inl NotADirectoryError
      else Inl FileNotFoundError)"

definition demo_paths :: "string list" where
  "demo_paths = [''/'', ''/home/u'', ''.hidden'', ''visible'', ''f'']"

definition demo_path_exists :: "string \<Rightarrow> string \<Rightarrow> exn + bool" where
  "demo_path_exists dir path =
     (if 255 < length path then Inl OSError else Inr (path \<in> set demo_paths))"

definition demo_iterdir :: "string \<Rightarrow> string \<Rightarrow> exn + nat path_item list" where
  "demo_iterdir dir path =
     (if path = ''/'' then Inr [demo_file ''.hidden'', demo_file ''visible'', demo_file ''f'']
      else if path = ''/home/u'' then Inr []
      else if path \<in> set demo_paths then Inl NotADirectoryError
      else Inl FileNotFoundError)"

definition demo_env :: "nat os_env" where
  "demo_env = \<lparr>home = ''/home/u'', chdir = demo_chdir, path_exists = demo_path_exists,
                iterdir = demo_iterdir, set_iter = remdups, fromtimestamp = str_nat\<rparr>"

definition demo_world :: world where
  "demo_world = \<lparr>cwd = ''/'', out = [], history_files = [''/'' \<mapsto> []]\<rparr>"

section \<open>The specification's wording, for comparison\<close>

definition spec_long_listing ::
  "'t os_env \<Rightarrow> 't stat_result \<Rightarrow> string \<Rightarrow> string \<Rightarrow> string \<Rightarrow> string" where
  \<comment> \<open>the long line as the specification words it: the time shown is the modification time\<close>
  "spec_long_listing env stats ow gr nm =
     format_path_permissions_levels (st_mode stats) @ '' '' @ str_nat (st_nlink stats) @ '' ''
     @ ow @ '' '' @ gr @ ''  '' @ str_nat (st_size stats) @ '' ''
     @ fromtimestamp env (st_mtime stats) @ '' '' @ nm"

definition ls_missing_message :: "string \<Rightarrow> string" where
  \<comment> \<open>the message the specification gives for a missing \<open>ls\<close> path\<close>
  "ls_missing_message p =
     ''ls: cannot access '' @ [CHR 0x27] @ p @ [CHR 0x27] @ '': No such file or directory''"

section \<open>Properties\<close>

subsection \<open>The permission string\<close>

lemma and_pow2_bit: "((m::int) AND 2 ^ n \<noteq> 0) = bit m n"
  by (simp add: and_exp_eq_0_iff_not_bit)

lemma mask_bits:
  "((m::int) AND 256 \<noteq> 0) = bit m 8" "(m AND 128 \<noteq> 0) = bit m 7"
  "(m AND 64 \<noteq> 0) = bit m 6" "(m AND 32 \<noteq> 0) = bit m 5"
  "(m AND 16 \<noteq> 0) = bit m 4" "(m AND 8 \<noteq> 0) = bit m 3"
  "(m AND 4 \<noteq> 0) = bit m 2" "(m AND 2 \<noteq> 0) = bit m 1"
  "(m AND 1 \<noteq> 0) = bit m 0"
  using and_pow2_bit [of m 8] and_pow2_bit [of m 7] and_pow2_bit [of m 6]
    and_pow2_bit [of m 5] and_pow2_bit [of m 4] and_pow2_bit [of m 3]
    and_pow2_bit [of m 2] and_pow2_bit [of m 1] and_pow2_bit [of m 0]
  by simp_all

lemma format_owner_permissions_eq:
  "format_owner_permissions p m =
     p @ [perm_sym (bit m 8) CHR ''r'', perm_sym (bit m 7) CHR ''w'', perm_sym (bit m 6) CHR ''x'']"
  using mask_bits [of m]
  by (simp add: format_owner_permissions_def OWNER_def S_IRUSR_def S_IWUSR_def S_IXUSR_def
      PERMISSIONS_SYMBOLS_def EMPTY_PERMISSION_SYMBOL_def perm_sym_def)

lemma format_group_permissions_eq:
  "format_group_permissions p m =
     p @ [perm_sym (bit m 5) CHR ''r'', perm_sym (bit m 4) CHR ''w'', perm_sym (bit m 3) CHR ''x'']"
  using mask_bits [of m]
  by (simp add: format_group_permissions_def GROUP_def S_IRGRP_def S_IWGRP_def S_IXGRP_def
      PERMISSIONS_SYMBOLS_def EMPTY_PERMISSION_SYMBOL_def perm_sym_def)

lemma format_others_permissions_eq:
  "format_others_permissions p m =
     p @ [perm_sym (bit m 2) CHR ''r'', perm_sym (bit m 1) CHR ''w'', perm_sym (bit m 0) CHR ''x'']"
  using mask_bits [of m]
  by (simp add: format_others_permissions_def OTHERS_def S_IROTH_def S_IWOTH_def S_IXOTH_def
      PERMISSIONS_SYMBOLS_def EMPTY_PERMISSION_SYMBOL_def perm_sym_def)

lemma format_path_permissions_levels_eq:
  "format_path_permissions_levels m =
     [perm_sym (S_ISDIR m) CHR ''d'',
      perm_sym (bit m 8) CHR ''r'', perm_sym (bit m 7) CHR ''w'', perm_sym (bit m 6) CHR ''x'',
      perm_sym (bit m 5) CHR ''r'', perm_sym (bit m 4) CHR ''w'', perm_sym (bit m 3) CHR ''x'',
      perm_sym (bit m 2) CHR ''r'', perm_sym (bit m 1) CHR ''w'', perm_sym (bit m 0) CHR ''x'']"
  by (simp add: format_path_permissions_levels_def format_owner_permissions_eq
      format_group_permissions_eq format_others_permissions_eq perm_sym_def)

text \<open>
  C2. For every mode, the permission string has exactly 10 characters: the first is \<open>d\<close>
  when \<open>S_ISDIR\<close> holds of the mode and a dash otherwise; the next nine are the letters
  \<open>r\<close>, \<open>w\<close>, \<open>x\<close> of owner (bits 8, 7, 6), group (bits 5, 4, 3) and others (bits 2, 1, 0),
  each replaced by a dash when its bit is clear. The owner formatter appends exactly the
  three owner characters, whatever the combination of the three owner bits.
\<close>

theorem permissions_ten_characters:
  "length (format_path_permissions_levels mode) = 10
   \<and> format_path_permissions_levels mode =
       [perm_sym (S_ISDIR mode) CHR ''d'',
        perm_sym (bit mode 8) CHR ''r'', perm_sym (bit mode 7) CHR ''w'',
        perm_sym (bit mode 6) CHR ''x'',
        perm_sym (bit mode 5) CHR ''r'', perm_sym (bit mode 4) CHR ''w'',
        perm_sym (bit mode 3) CHR ''x'',
        perm_sym (bit mode 2) CHR ''r'', perm_sym (bit mode 1) CHR ''w'',
        perm_sym (bit mode 0) CHR ''x'']
   \<and> format_owner_permissions permissions mode =
       permissions @ [perm_sym (bit mode 8) CHR ''r'', perm_sym (bit mode 7) CHR ''w'',
                      perm_sym (bit mode 6) CHR ''x'']"
  by (simp add: format_path_permissions_levels_eq format_owner_permissions_eq)

subsection \<open>The long listing line\<close>

lemma long_listing_ok:
  assumes "stat item = Inr stats" "owner item = Inr ow" "group item = Inr gr"
  shows "format_ls_long_listing env item =
       Inr (format_path_permissions_levels (st_mode stats) @ '' ''
            @ str_nat (st_nlink stats) @ '' '' @ ow @ '' '' @ gr @ ''  ''
            @ str_nat (st_size stats) @ '' ''
            @ fromtimestamp env (st_ctime stats) @ '' '' @ name item)"
  using assms by (simp add: format_ls_long_listing_def)

text \<open>
  C1, as amended. When \<open>stat\<close>, \<open>owner\<close> and \<open>group\<close> of an entry succeed, its long line is
  the 10-character permission string, the link count, the owner, the group, two spaces,
  the size, the rendering of \<open>st_ctime\<close> (the time of the last status change, not the
  modification time) and the name, single spaces elsewhere; and that line is what the
  listing loop prints for the entry when the flags contain \<open>l\<close>.
\<close>

theorem long_listing_line_format:
  assumes "stat item = Inr stats" and "owner item = Inr ow" and "group item = Inr gr"
    and "CHR ''l'' \<in> set ls_args"
    and "line = format_path_permissions_levels (st_mode stats) @ '' ''
            @ str_nat (st_nlink stats) @ '' '' @ ow @ '' '' @ gr @ ''  ''
            @ str_nat (st_size stats) @ '' ''
            @ fromtimestamp env (st_ctime stats) @ '' '' @ name item"
  shows "format_ls_long_listing env item = Inr line
     \<and> length (format_path_permissions_levels (st_mode stats)) = 10
     \<and> ls_print_loop env ls_args (item # rest) w = ls_print_loop env ls_args rest (print line w)"
  using assms long_listing_ok [OF assms(1,2,3), of env]
  by (simp add: format_path_permissions_levels_eq)

lemma demo_line: "format_ls_long_listing demo_env (demo_file ''f'') = Inr ''-rw-r--r-- 1 u g  4 200 f''"
  by code_simp

text \<open>
  C1 as stated fails: for a file whose status changed at time 200 and whose content was
  modified at time 100, the line shows 200, while the line of the specification shows 100.
  (\<open>demo_env\<close> renders a time as its number of seconds.)
\<close>

theorem long_listing_mtime_counterexample:
  "format_ls_long_listing demo_env (demo_file ''f'') = Inr ''-rw-r--r-- 1 u g  4 200 f''
   \<and> spec_long_listing demo_env demo_stats ''u'' ''g'' ''f'' = ''-rw-r--r-- 1 u g  4 100 f''
   \<and> stat (demo_file ''f'') = Inr demo_stats
   \<and> format_ls_long_listing demo_env (demo_file ''f'')
       \<noteq> Inr (spec_long_listing demo_env demo_stats ''u'' ''g'' ''f'')"
  by code_simp

text \<open>
  The amended C1 at the file of the specification's example.
\<close>

theorem long_listing_line_format_witness:
  "format_ls_long_listing demo_env (demo_file ''f'') = Inr ''-rw-r--r-- 1 u g  4 200 f''
   \<and> ls_print_loop demo_env ''l'' [demo_file ''f''] demo_world
       = (None, print ''-rw-r--r-- 1 u g  4 200 f'' demo_world)"
proof -
  have 1: "stat (demo_file ''f'') = Inr demo_stats" by (simp add: demo_file_def)
  have 2: "owner (demo_file ''f'') = Inr ''u''" by (simp add: demo_file_def)
  have 3: "group (demo_file ''f'') = Inr ''g''" by (simp add: demo_file_def)
  have 4: "CHR ''l'' \<in> set ''l''" by simp
  have 5: "''-rw-r--r-- 1 u g  4 200 f'' = format_path_permissions_levels (st_mode demo_stats) @ '' ''
            @ str_nat (st_nlink demo_stats) @ '' '' @ ''u'' @ '' '' @ ''g'' @ ''  ''
            @ str_nat (st_size demo_stats) @ '' ''
            @ fromtimestamp demo_env (st_ctime demo_stats) @ '' '' @ name (demo_file ''f'')"
    by code_simp
  show ?thesis
    using long_listing_line_format [OF 1 2 3 4 5, of "[]" demo_world] by simp
qed

subsection \<open>The last record of the history file\<close>

lemma shell_history_end: "shell_history h \<Longrightarrow> h = [] \<or> last h = nl"
  by (induction rule: shell_history.induct) simp_all

lemma scan_back_line:
  assumes "nl \<notin> set l" and "pre = [] \<or> last pre = nl" and "k < length l"
  shows "scan_back (pre @ l @ [nl]) (length pre + k) = length pre"
  using assms(3)
proof (induction k)
  case 0
  have neq: "l ! 0 \<noteq> nl" using assms(1) 0 by (metis nth_mem)
  show ?case
  proof (cases pre rule: rev_cases)
    case Nil
    then show ?thesis using neq 0 by (simp add: scan_back.simps [of _ 0] nth_append)
  next
    case (snoc ys y)
    then have y: "y = nl" using assms(2) by simp
    have a: "scan_back (pre @ l @ [nl]) (length ys) = Suc (length ys)"
      using snoc y by (simp add: scan_back.simps [of _ "length ys"] nth_append)
    show ?thesis using neq 0 snoc a
      by (simp add: scan_back.simps [of _ "Suc (length ys)"] nth_append)
  qed
next
  case (Suc k)
  then have k: "k < length l" by simp
  have neq: "l ! Suc k \<noteq> nl" using assms(1) Suc.prems by (metis nth_mem)
  show ?case using Suc.IH [OF k] neq Suc.prems
    by (simp add: scan_back.simps [of _ "Suc (length pre + k)"] nth_append)
qed

lemma readline_line:
  assumes "nl \<notin> set l"
  shows "readline (pre @ l @ [nl]) (length pre) = l @ [nl]"
proof -
  have "takeWhile (\<lambda>c. c \<noteq> nl) (l @ [nl]) = l"
    using assms by (induction l) auto
  then show ?thesis by (simp add: readline_def Let_def)
qed

lemma last_line_found:
  assumes "nl \<notin> set l" and "pre = [] \<or> last pre = nl" and "l \<noteq> []"
  shows "readline (pre @ l @ [nl]) (seek_last_line (pre @ l @ [nl])) = l @ [nl]"
proof -
  have k: "length l - 1 < length l" using assms(3) by (cases l) simp_all
  have "length (pre @ l @ [nl]) - 2 = length pre + (length l - 1)"
    using assms(3) by (cases l) simp_all
  moreover have "\<not> length (pre @ l @ [nl]) < 2" using assms(3) by (cases l) simp_all
  ultimately have "seek_last_line (pre @ l @ [nl]) = length pre"
    using scan_back_line [OF assms(1,2) k] by (simp add: seek_last_line_def)
  then show ?thesis using readline_line [OF assms(1)] by simp
qed

lemma split_on_loop_sep:
  "sep \<notin> set a \<Longrightarrow> split_on_loop sep cur (a @ sep # b) = (cur @ a) # split_on_loop sep [] b"
  by (induction a arbitrary: cur) auto

lemma split_on_loop_nosep:
  "sep \<notin> set a \<Longrightarrow> split_on_loop sep cur a = [cur @ a]"
  by (induction a arbitrary: cur) auto

lemma split_on_loop_cons: "\<exists>x xs. split_on_loop sep cur s = x # xs"
  by (induction s arbitrary: cur) auto

lemma record_fields:
  assumes "CHR '':'' \<notin> set now"
  shows "\<exists>field rest. split_on CHR '':'' (now @ '':'' @ c @ [nl]) = now # field # rest"
proof -
  obtain x xs where "split_on_loop CHR '':'' [] (c @ [nl]) = x # xs"
    using split_on_loop_cons by blast
  then show ?thesis
    using split_on_loop_sep [OF assms, of "[]" "c @ [nl]"] by (simp add: split_on_def)
qed

lemma history_check_total:
  assumes "history_files w (cwd w) = Some h" and "shell_history h"
  shows "\<exists>b. is_not_equal_last_history_record w source_command = Inr b"
  using assms(2)
proof (cases rule: shell_history.cases)
  case no_record
  then show ?thesis using assms(1) by (auto simp: is_not_equal_last_history_record_def)
next
  case (add_record h0 now c)
  have l: "nl \<notin> set (now @ '':'' @ c)" using add_record by (simp add: nl_def)
  have pre: "h0 = [] \<or> last h0 = nl" using add_record shell_history_end by blast
  have "readline h (seek_last_line h) = now @ '':'' @ c @ [nl]"
    using last_line_found [OF l pre] add_record(1) by simp
  moreover obtain field rest where
    "split_on CHR '':'' (now @ '':'' @ c @ [nl]) = now # field # rest"
    using record_fields add_record by blast
  ultimately show ?thesis
    using assms(1) by (auto simp: is_not_equal_last_history_record_def)
qed

subsection \<open>Parsing and dispatch of the command name\<close>

lemma validated_attribute_is_lowercase:
  "hasattr a \<Longrightarrow> upper a \<in> set Command_member_names \<Longrightarrow> lower a = a"
  unfolding hasattr_def class_attributes_def object_attributes_def Command_member_names_def
  by (auto simp: upper_def upper_char_def lower_def lower_char_def)

lemma turn_unfold:
  "turn env now c w =
     (case run env (fst (Parser c w)) (snd (Parser c w)) of
        (Some e, w2) \<Rightarrow> (Some e, w2)
      | (None, w2) \<Rightarrow>
          (case is_not_equal_last_history_record w2 c of
             Inl e \<Rightarrow> (Some e, w2)
           | Inr b \<Rightarrow> (None, if b then write_history now c w2 else w2)))"
  by (simp add: turn_def Let_def case_prod_beta)


lemma Parser_known:
  assumes "tokenize c = t # rest" and "upper t \<in> set Command_member_names"
  shows "Parser c w = (\<lparr>tokens = t # rest, main_command = Some t, arguments = rest\<rparr>, w)"
  using assms by (simp add: Parser_def parse_main_command_def validate_main_command_def)






lemma mixed_case_is_no_attribute:
  assumes "upper t \<in> set Command_member_names" and "lower t \<noteq> t"
  shows "\<not> hasattr t"
  using assms validated_attribute_is_lowercase by blast

text \<open>
  C10. When the first token matches a command name after upper-casing but is not all
  lower case, the parser accepts it and prints nothing, the token is no attribute of
  the command manager, so \<open>run\<close> calls no handler and changes nothing; the turn only
  does the history check and write.
\<close>

theorem mixed_case_command_is_silent:
  assumes "tokenize source_command = t # rest"
    and "upper t \<in> set Command_member_names"
    and "lower t \<noteq> t"
  shows "Parser source_command w
           = (\<lparr>tokens = t # rest, main_command = Some t, arguments = rest\<rparr>, w)
       \<and> \<not> hasattr t
       \<and> run env (fst (Parser source_command w)) w = (None, w)
       \<and> turn env now source_command w
           = (case is_not_equal_last_history_record w source_command of
                Inl e \<Rightarrow> (Some e, w)
              | Inr b \<Rightarrow> (None, if b then write_history now source_command w else w))"
proof -
  have P: "Parser source_command w
      = (\<lparr>tokens = t # rest, main_command = Some t, arguments = rest\<rparr>, w)"
    using Parser_known [OF assms(1,2)] .
  have H: "\<not> hasattr t" using mixed_case_is_no_attribute [OF assms(2,3)] .
  have R: "run env (fst (Parser source_command w)) w = (None, w)"
    using P H by (simp add: run_def)
  show ?thesis using P H R by (simp add: turn_unfold)
qed


text \<open>
  C10 at the line \<open>Ls -a\<close>.
\<close>

theorem mixed_case_command_is_silent_witness:
  "run demo_env (fst (Parser ''Ls -a'' demo_world)) demo_world = (None, demo_world)
   \<and> \<not> hasattr ''Ls''"
proof -
  have 1: "tokenize ''Ls -a'' = ''Ls'' # [''-a'']" by code_simp
  have 2: "upper ''Ls'' \<in> set Command_member_names" by code_simp
  have 3: "lower ''Ls'' \<noteq> ''Ls''" by code_simp
  show ?thesis
    using mixed_case_command_is_silent [OF 1 2 3, of demo_world demo_env "''1.5''"] by blast
qed

text \<open>
  C4 fails on the code at the line \<open>PWD\<close>: the parser validates the token (its upper
  case is a member name) and prints no diagnostic, but \<open>run\<close> looks the attribute up
  under the token as typed, finds none and calls nothing; the line \<open>pwd\<close> prints the
  working directory.
\<close>

theorem uppercase_command_not_dispatched:
  "validate_main_command ''PWD'' = Inr ()
   \<and> Parser ''PWD'' demo_world
       = (\<lparr>tokens = [''PWD''], main_command = Some ''PWD'', arguments = []\<rparr>, demo_world)
   \<and> run demo_env \<lparr>tokens = [''PWD''], main_command = Some ''PWD'', arguments = []\<rparr> demo_world
       = (None, demo_world)
   \<and> run demo_env \<lparr>tokens = [''pwd''], main_command = Some ''pwd'', arguments = []\<rparr> demo_world
       = (None, print ''/'' demo_world)"
proof -
  have t: "tokenize ''PWD'' = [''PWD'']" by code_simp
  have u: "upper ''PWD'' \<in> set Command_member_names" by code_simp
  have v: "validate_main_command ''PWD'' = Inr ()" using u by (simp add: validate_main_command_def)
  have P: "Parser ''PWD'' demo_world
       = (\<lparr>tokens = [''PWD''], main_command = Some ''PWD'', arguments = []\<rparr>, demo_world)"
    using Parser_known [OF t u] .
  have h: "\<not> hasattr ''PWD''" by code_simp
  have h2: "hasattr ''pwd''" by code_simp
  have g: "getattr_method ''pwd'' = Some M_pwd" by code_simp
  have R1: "run demo_env \<lparr>tokens = [''PWD''], main_command = Some ''PWD'', arguments = []\<rparr> demo_world
       = (None, demo_world)" using h by (simp add: run_def)
  have R2: "run demo_env \<lparr>tokens = [''pwd''], main_command = Some ''pwd'', arguments = []\<rparr> demo_world
       = (None, print ''/'' demo_world)"
    using h2 g by (simp add: run_def execute_command_def call_method_def pwd_def demo_world_def)
  show ?thesis using v P R1 R2 by simp
qed

text \<open>
  C3 fails on the code at the command \<open>echo a:b\<close> entered twice: the check cuts the
  last record at its second colon, compares \<open>echo a\<close> with \<open>echo a:b\<close>, answers
  ``not equal'', and the same command text is stored twice.
\<close>

theorem history_dedup_misses_colon:
  "is_not_equal_last_history_record (write_history ''1.5'' ''echo a:b'' demo_world) ''echo a:b''
     = Inr True
   \<and> history_files (snd (turn demo_env ''2.5'' ''echo a:b''
        (snd (turn demo_env ''1.5'' ''echo a:b'' demo_world)))) ''/''
     = Some (''1.5:echo a:b'' @ [nl] @ ''2.5:echo a:b'' @ [nl])"
  by code_simp

lemma history_dedup_plain_example:
  "history_files (snd (turn demo_env ''2.5'' ''pwd''
        (snd (turn demo_env ''1.5'' ''pwd'' demo_world)))) ''/''
     = Some (''1.5:pwd'' @ [nl])"
  by code_simp

subsection \<open>Where the history dedup holds\<close>

lemma strip_plain_line:
  assumes "c \<noteq> []" and "\<not> isspace (hd c)" and "\<not> isspace (last c)"
  shows "strip (c @ [nl]) = c"
proof -
  have sp: "isspace nl" by (simp add: isspace_def nl_def)
  have 1: "dropWhile isspace (c @ [nl]) = c @ [nl]"
    using assms(1,2) by (cases c) simp_all
  have 2: "dropWhile isspace (rev c) = rev c"
    using assms(1,3) by (cases c rule: rev_cases) simp_all
  show ?thesis using 1 2 sp by (simp add: strip_def)
qed

lemma history_dedup_plain:
  assumes "shell_history h0" and "nl \<notin> set now" and "CHR '':'' \<notin> set now"
    and "nl \<notin> set c" and "CHR '':'' \<notin> set c"
    and "c \<noteq> []" and "\<not> isspace (hd c)" and "\<not> isspace (last c)"
    and "history_files w (cwd w) = Some (h0 @ now @ '':'' @ c @ [nl])"
  shows "is_not_equal_last_history_record w c' = Inr (c' = [] \<or> c \<noteq> c')"
proof -
  let ?h = "h0 @ now @ '':'' @ c @ [nl]"
  have l: "nl \<notin> set (now @ '':'' @ c)" using assms(2,4) by (simp add: nl_def)
  have pre: "h0 = [] \<or> last h0 = nl" using assms(1) shell_history_end by blast
  have "readline (h0 @ (now @ '':'' @ c) @ [nl]) (seek_last_line (h0 @ (now @ '':'' @ c) @ [nl]))
      = (now @ '':'' @ c) @ [nl]"
    by (rule last_line_found [OF l pre]) simp
  then have line: "readline ?h (seek_last_line ?h) = now @ '':'' @ c @ [nl]" by simp
  have "CHR '':'' \<notin> set (c @ [nl])" using assms(5) by (simp add: nl_def)
  then have "split_on_loop CHR '':'' [] (c @ [nl]) = [c @ [nl]]"
    using split_on_loop_nosep [of "CHR '':''" "c @ [nl]" "[]"] by simp
  then have fields: "split_on CHR '':'' (now @ '':'' @ c @ [nl]) = [now, c @ [nl]]"
    using split_on_loop_sep [OF assms(3), of "[]" "c @ [nl]"] by (simp add: split_on_def)
  show ?thesis
    using assms(9) line fields strip_plain_line [OF assms(6,7,8)]
    by (auto simp: is_not_equal_last_history_record_def)
qed

lemma write_history_keeps_shell_history:
  assumes "history_files w (cwd w) = Some h" and "shell_history h"
    and "nl \<notin> set now" and "CHR '':'' \<notin> set now" and "nl \<notin> set c"
  shows "\<exists>h'. history_files (write_history now c w) (cwd (write_history now c w)) = Some h'
           \<and> shell_history h'"
  using assms shell_history.add_record [OF assms(2,3,4,5)]
  by (simp add: write_history_def)

subsection \<open>The cd handler\<close>

lemma cd_missing:
  assumes "argument_path \<noteq> []"
    and "chdir env (cwd w) (concat argument_path) = Inl FileNotFoundError"
  shows "cd env argument_path w
     = (None, w\<lparr>out := out w @ [Print (''cd: no such file or directory: '' @ concat argument_path)]\<rparr>)"
  using assms by (simp add: cd_def print_def)

lemma cd_found:
  assumes "argument_path \<noteq> []" and "chdir env (cwd w) (concat argument_path) = Inr d"
  shows "cd env argument_path w = (None, w\<lparr>cwd := d, out := out w @ [Print d]\<rparr>)"
  using assms by (simp add: cd_def pwd_def print_def)

lemma cd_home: "cd env [] w = cd env [home env] w"
  by (simp add: cd_def)

text \<open>
  C5, as amended. \<open>cd\<close> joins its arguments with no separator. When \<open>os.chdir\<close> raises
  \<open>FileNotFoundError\<close> for the path, \<open>cd\<close> prints exactly
  \<open>cd: no such file or directory: <path>\<close> and leaves the working directory unchanged;
  when \<open>os.chdir\<close> succeeds, the working directory is the new one and that is what is
  printed; with no argument it behaves as with the home directory as its argument.
\<close>

theorem cd_changes_directory_or_reports:
  "(argument_path \<noteq> [] \<and> chdir env (cwd w) (concat argument_path) = Inl FileNotFoundError
      \<longrightarrow> cd env argument_path w
            = (None, w\<lparr>out := out w @ [Print (''cd: no such file or directory: ''
                                               @ concat argument_path)]\<rparr>)
          \<and> cwd (snd (cd env argument_path w)) = cwd w)
   \<and> (argument_path \<noteq> [] \<and> chdir env (cwd w) (concat argument_path) = Inr d
      \<longrightarrow> cd env argument_path w = (None, w\<lparr>cwd := d, out := out w @ [Print d]\<rparr>))
   \<and> cd env [] w = cd env [home env] w"
  using cd_missing [of argument_path env w] cd_found [of argument_path env w d]
    cd_home [of env w]
  by simp

text \<open>
  The amended C5 at a missing path given in two pieces, at the home directory, and with
  no argument.
\<close>

theorem cd_changes_directory_or_reports_witness:
  "cd demo_env [''no'', ''where''] demo_world
     = (None, demo_world\<lparr>out := [Print ''cd: no such file or directory: nowhere'']\<rparr>)
   \<and> cd demo_env [''/home/u''] demo_world
     = (None, demo_world\<lparr>cwd := ''/home/u'', out := [Print ''/home/u'']\<rparr>)
   \<and> cd demo_env [] demo_world
     = (None, demo_world\<lparr>cwd := ''/home/u'', out := [Print ''/home/u'']\<rparr>)"
proof -
  have 1: "[''no'', ''where''] \<noteq> [] \<and> chdir demo_env (cwd demo_world) (concat [''no'', ''where''])
             = Inl FileNotFoundError"
    by (simp add: demo_env_def demo_chdir_def)
  have 2: "[''/home/u''] \<noteq> [] \<and> chdir demo_env (cwd demo_world) (concat [''/home/u''])
             = Inr ''/home/u''"
    by (simp add: demo_env_def demo_chdir_def)
  have 3: "home demo_env = ''/home/u''" by (simp add: demo_env_def)
  have 4: "out demo_world = []" by (simp add: demo_world_def)
  show ?thesis
    using cd_changes_directory_or_reports [of "[''no'', ''where'']" demo_env demo_world "[]"]
      cd_changes_directory_or_reports [of "[''/home/u'']" demo_env demo_world "''/home/u''"]
      1 2 3 4
    by simp
qed

text \<open>
  C5 as stated fails: the path \<open>f/x\<close>, where \<open>f\<close> is a regular file, does not exist, but
  \<open>os.chdir\<close> raises \<open>NotADirectoryError\<close> for it; \<open>cd\<close> catches \<open>FileNotFoundError\<close>
  only, so no message is printed and the error leaves \<open>cd\<close>.
\<close>

theorem cd_through_file_counterexample:
  "path_exists demo_env (cwd demo_world) ''f/x'' = Inr False
   \<and> fst (cd demo_env [''f/x''] demo_world) = Some NotADirectoryError
   \<and> out (snd (cd demo_env [''f/x''] demo_world)) = []"
  by (simp add: cd_def demo_env_def demo_chdir_def demo_path_exists_def demo_paths_def
      demo_world_def)

subsection \<open>The ls handler\<close>

lemma parse_ls_loop_missing:
  assumes "p \<in> set args" and "\<not> startswith p CHR ''-''"
    and "path_exists env dir p = Inr False"
    and "\<forall>q\<in>set args. \<not> startswith q CHR ''-'' \<longrightarrow> q = p \<or> path_exists env dir q = Inr True"
  shows "parse_ls_loop env dir args a b = Inl (ValueError (ls_missing_message p))"
  using assms(1,4)
proof (induction args arbitrary: a b)
  case Nil
  then show ?case by simp
next
  case (Cons x xs)
  have rest: "parse_ls_loop env dir xs a' b' = Inl (ValueError (ls_missing_message p))"
    if "x \<noteq> p" for a' b'
  proof -
    have "p \<in> set xs" using Cons.prems(1) that by simp
    moreover have
      "\<forall>q\<in>set xs. \<not> startswith q CHR ''-'' \<longrightarrow> q = p \<or> path_exists env dir q = Inr True"
      using Cons.prems(2) by simp
    ultimately show ?thesis by (rule Cons.IH)
  qed
  show ?case
  proof (cases "x = p")
    case True
    then show ?thesis
      using assms(2,3) by (simp add: validate_ls_path_argument_def ls_missing_message_def)
  next
    case False
    have ok: "startswith x CHR ''-'' \<or> path_exists env dir x = Inr True"
      using Cons.prems(2) False by auto
    show ?thesis
    proof (cases "startswith x CHR ''-''")
      case True
      then show ?thesis using rest [OF False] by simp
    next
      case nodash: False
      then have "path_exists env dir x = Inr True" using ok by simp
      then show ?thesis
        using nodash rest [OF False] by (simp add: validate_ls_path_argument_def)
    qed
  qed
qed

text \<open>
  C6, as amended. When a parameter of \<open>ls\<close> that does not start with a dash names a path
  of which \<open>Path.exists\<close> answers \<open>False\<close>, and \<open>Path.exists\<close> answers \<open>True\<close> of every other
  such parameter, \<open>ls\<close> prints exactly
  \<open>ls: cannot access '<path>': No such file or directory\<close> and nothing else, whatever
  the other parameters and the order in which the set of parameters is visited.
\<close>

theorem ls_missing_path_message:
  assumes "set (set_iter env parameters) = set parameters"
    and "p \<in> set parameters" and "\<not> startswith p CHR ''-''"
    and "path_exists env (cwd w) p = Inr False"
    and "\<forall>q\<in>set parameters.
           \<not> startswith q CHR ''-'' \<longrightarrow> q = p \<or> path_exists env (cwd w) q = Inr True"
  shows "ls env parameters w
     = (None, w\<lparr>out := out w @ [Print (''ls: cannot access '' @ [CHR 0x27] @ p @ [CHR 0x27]
                                       @ '': No such file or directory'')]\<rparr>)"
proof -
  have a: "p \<in> set (set_iter env parameters)"
    using assms(1,2) by simp
  have b: "\<forall>q\<in>set (set_iter env parameters).
           \<not> startswith q CHR ''-'' \<longrightarrow> q = p \<or> path_exists env (cwd w) q = Inr True"
    using assms(5) unfolding assms(1) .
  have "parse_ls_arguments env (cwd w) (set_iter env parameters)
      = Inl (ValueError (ls_missing_message p))"
    unfolding parse_ls_arguments_def
    by (rule parse_ls_loop_missing [OF a assms(3,4) b])
  then show ?thesis
    by (simp add: ls_def ls_try_def except_ValueError_def print_def ls_missing_message_def)
qed

text \<open>
  C6 as stated fails: a name of 256 characters names no existing path, but
  \<open>Path.exists\<close> raises \<open>OSError\<close> on it instead of answering \<open>False\<close>; \<open>ls\<close> catches
  \<open>ValueError\<close> only, so the error leaves \<open>ls\<close> and no message is printed.
\<close>

theorem ls_long_name_counterexample:
  "replicate 256 CHR ''a'' \<notin> set demo_paths
   \<and> \<not> startswith (replicate 256 CHR ''a'') CHR ''-''
   \<and> fst (ls demo_env [replicate 256 CHR ''a''] demo_world) = Some OSError
   \<and> out (snd (ls demo_env [replicate 256 CHR ''a''] demo_world)) = []"
proof -
  have n: "replicate 256 CHR ''a'' = CHR ''a'' # replicate 255 CHR ''a''"
    by (simp add: replicate_Suc [symmetric] del: replicate_Suc)
  have e: "path_exists demo_env (cwd demo_world) (replicate 256 CHR ''a'') = Inl OSError"
    by (simp add: demo_env_def demo_path_exists_def)
  have d: "\<not> startswith (replicate 256 CHR ''a'') CHR ''-''"
    using n by (simp add: startswith_def)
  have p: "replicate 256 CHR ''a'' \<notin> set demo_paths"
    using n by (simp add: demo_paths_def)
  have s: "set_iter demo_env [replicate 256 CHR ''a''] = [replicate 256 CHR ''a'']"
    by (simp add: demo_env_def)
  have "ls demo_env [replicate 256 CHR ''a''] demo_world = (Some OSError, demo_world)"
    using e d s
    by (simp add: ls_def ls_try_def except_ValueError_def parse_ls_arguments_def
        validate_ls_path_argument_def)
  then show ?thesis using p d by (simp add: demo_world_def)
qed

text \<open>
  The amended C6 at \<open>ls -l nowhere\<close>.
\<close>

theorem ls_missing_path_message_witness:
  "ls demo_env [''-l'', ''nowhere''] demo_world
     = (None, demo_world\<lparr>out :=
         [Print (''ls: cannot access '' @ [CHR 0x27] @ ''nowhere'' @ [CHR 0x27]
                 @ '': No such file or directory'')]\<rparr>)"
proof -
  have 1: "set (set_iter demo_env [''-l'', ''nowhere'']) = set [''-l'', ''nowhere'']"
    by (simp add: demo_env_def)
  have 2: "''nowhere'' \<in> set [''-l'', ''nowhere'']" by simp
  have 3: "\<not> startswith ''nowhere'' CHR ''-''" by (simp add: startswith_def)
  have 4: "path_exists demo_env (cwd demo_world) ''nowhere'' = Inr False"
    by (simp add: demo_env_def demo_path_exists_def demo_paths_def)
  have 5: "\<forall>q\<in>set [''-l'', ''nowhere''].
           \<not> startswith q CHR ''-'' \<longrightarrow>
             q = ''nowhere'' \<or> path_exists demo_env (cwd demo_world) q = Inr True"
    by (simp add: startswith_def)
  have 6: "out demo_world = []" by (simp add: demo_world_def)
  show ?thesis using ls_missing_path_message [OF 1 2 3 4 5] 6 by simp
qed






subsection \<open>What ends the session\<close>











lemma cd_success_ends_session_example:
  "fst (main demo_env [(''cd /home/u'', ''1.5''), (''pwd'', ''2.5'')] demo_world) = FileNotFoundError
   \<and> out (snd (main demo_env [(''cd /home/u'', ''1.5''), (''pwd'', ''2.5'')] demo_world))
       = [Print ''/home/u'']"
  by code_simp


end
